theory Spec2Isabelle
  imports Complex_Main "HOL-Library.Word" "HOL-Library.Log_Nat" "HOL-Library.Sublist"
begin

text \<open>
  The create-pool page, \<^verbatim>\<open>frontend/src/app/create-pool/page.tsx\<close>: its form validation, its
  submit handler and the states it moves through, over the JavaScript strings and numbers
  they compute with. The handlers are functions on the page's state; \<open>createPool\<close> and the
  wallet are the environment.
\<close>

section \<open>JavaScript strings\<close>

text \<open>
  A JavaScript string is a sequence of UTF-16 code units; \<open>length\<close> counts code units.
  String literals of the page are ASCII and are written through \<open>str\<close>.
\<close>

type_synonym codeunit = "16 word"
type_synonym jsstring = "codeunit list"

definition str :: "string \<Rightarrow> jsstring" where
  "str s = map (\<lambda>c. word_of_nat (of_char c)) s"

text \<open>
  The code units that \<open>String.prototype.trim\<close>, \<open>parseInt\<close> and \<open>parseFloat\<close> strip:
  ECMAScript's WhiteSpace (TAB, VT, FF, SP, NBSP, ZWNBSP and the Unicode space separators)
  and LineTerminator (LF, CR, LS, PS).
\<close>

definition isWhiteSpace :: "codeunit \<Rightarrow> bool" where
  "isWhiteSpace c \<longleftrightarrow>
     c = 9 \<or> c = 10 \<or> c = 11 \<or> c = 12 \<or> c = 13 \<or> c = 32 \<or> c = 160 \<or> c = 5760 \<or>
     (8192 \<le> c \<and> c \<le> 8202) \<or> c = 8232 \<or> c = 8233 \<or> c = 8239 \<or> c = 8287 \<or>
     c = 12288 \<or> c = 65279"

definition trimStart :: "jsstring \<Rightarrow> jsstring" where
  "trimStart s = dropWhile isWhiteSpace s"

definition trim :: "jsstring \<Rightarrow> jsstring" where
  "trim s = rev (dropWhile isWhiteSpace (rev (dropWhile isWhiteSpace s)))"

text \<open>\<open>s.includes(t)\<close>: \<open>t\<close> occurs in \<open>s\<close> as a contiguous run of code units.\<close>

fun includes_js :: "jsstring \<Rightarrow> jsstring \<Rightarrow> bool" where
  "includes_js [] t = (t = [])"
| "includes_js (c # s) t = (prefix t (c # s) \<or> includes_js s t)"

section \<open>JavaScript numbers\<close>

text \<open>
  A Number is an IEEE 754 double: NaN, an infinity, or a finite value, kept here as the
  rational it denotes. The two zeros are identified; no operation of the page tells them
  apart (\<open>-0 <= 0\<close> holds as \<open>0 <= 0\<close> does).
\<close>

datatype number = NaN | Fin rat | PosInf | NegInf

definition pow2 :: "int \<Rightarrow> rat" where
  "pow2 k = (if 0 \<le> k then 2 ^ nat k else 1 / 2 ^ nat (- k))"

definition pow10 :: "int \<Rightarrow> rat" where
  "pow10 k = (if 0 \<le> k then 10 ^ nat k else 1 / 10 ^ nat (- k))"

text \<open>The binary exponent of a positive rational: \<open>2 ^ ilog2 a \<le> a < 2 ^ (ilog2 a + 1)\<close>
  (lemmas \<open>ilog2_lower\<close> and \<open>ilog2_upper\<close>).\<close>

definition ilog2 :: "rat \<Rightarrow> int" where
  "ilog2 a = (if 1 \<le> a then bitlen \<lfloor>a\<rfloor> - 1 else - bitlen (\<lceil>1 / a\<rceil> - 1))"

definition roundHalfEven :: "rat \<Rightarrow> int" where
  "roundHalfEven q =
     (let f = \<lfloor>q\<rfloor>; r = q - of_int f
      in if r < 1 / 2 then f else if 1 / 2 < r then f + 1 else if even f then f else f + 1)"

text \<open>
  The Number value of a mathematical value: round to the nearest double, ties to the even
  significand; 53 bits of significand, least exponent -1022 (below it the spacing stays
  \<open>2 ^ -1074\<close>), and a result of magnitude \<open>2 ^ 1024\<close> is an infinity.
\<close>

definition roundToDouble :: "rat \<Rightarrow> number" where
  "roundToDouble x =
     (if x = 0 then Fin 0
      else
        let a = \<bar>x\<bar>;
            e = max (ilog2 a) (- 1022);
            u = pow2 (e - 52);
            v = of_int (roundHalfEven (a / u)) * u
        in if pow2 1024 \<le> v then (if 0 < x then PosInf else NegInf)
           else Fin (if 0 < x then v else - v))"

fun num_mult :: "number \<Rightarrow> number \<Rightarrow> number" where
  "num_mult NaN y = NaN"
| "num_mult x NaN = NaN"
| "num_mult (Fin a) (Fin b) = roundToDouble (a * b)"
| "num_mult (Fin a) PosInf = (if a = 0 then NaN else if 0 < a then PosInf else NegInf)"
| "num_mult (Fin a) NegInf = (if a = 0 then NaN else if 0 < a then NegInf else PosInf)"
| "num_mult PosInf (Fin b) = (if b = 0 then NaN else if 0 < b then PosInf else NegInf)"
| "num_mult NegInf (Fin b) = (if b = 0 then NaN else if 0 < b then NegInf else PosInf)"
| "num_mult PosInf PosInf = PosInf"
| "num_mult PosInf NegInf = NegInf"
| "num_mult NegInf PosInf = NegInf"
| "num_mult NegInf NegInf = PosInf"

fun num_add :: "number \<Rightarrow> number \<Rightarrow> number" where
  "num_add NaN y = NaN"
| "num_add x NaN = NaN"
| "num_add (Fin a) (Fin b) = roundToDouble (a + b)"
| "num_add (Fin a) PosInf = PosInf"
| "num_add (Fin a) NegInf = NegInf"
| "num_add PosInf (Fin b) = PosInf"
| "num_add NegInf (Fin b) = NegInf"
| "num_add PosInf PosInf = PosInf"
| "num_add PosInf NegInf = NaN"
| "num_add NegInf PosInf = NaN"
| "num_add NegInf NegInf = NegInf"

text \<open>The comparison \<open>x <= 0\<close>: false on NaN.\<close>

fun le_zero :: "number \<Rightarrow> bool" where
  "le_zero NaN = False"
| "le_zero (Fin q) = (q \<le> 0)"
| "le_zero PosInf = False"
| "le_zero NegInf = True"

subsection \<open>parseInt and parseFloat\<close>

definition digitVal :: "codeunit \<Rightarrow> nat option" where
  "digitVal c =
     (if 48 \<le> c \<and> c \<le> 57 then Some (unat c - 48)
      else if 97 \<le> c \<and> c \<le> 122 then Some (unat c - 87)
      else if 65 \<le> c \<and> c \<le> 90 then Some (unat c - 55)
      else None)"

definition isRadixDigit :: "nat \<Rightarrow> codeunit \<Rightarrow> bool" where
  "isRadixDigit R c = (case digitVal c of None \<Rightarrow> False | Some v \<Rightarrow> v < R)"

definition digitsValue :: "nat \<Rightarrow> jsstring \<Rightarrow> nat" where
  "digitsValue R ds = foldl (\<lambda>acc c. acc * R + (case digitVal c of None \<Rightarrow> 0 | Some v \<Rightarrow> v)) 0 ds"

text \<open>
  \<open>parseInt(string)\<close> with no radix: leading white space and a sign are stripped, a
  prefix \<open>0x\<close> or \<open>0X\<close> selects radix 16 (else 10), and the longest run of digits is read;
  no digit gives NaN. Trailing text is ignored. The integer read is rounded to the nearest
  double, as the engines do (the standard lets an engine approximate a decimal of more
  than 20 significant digits).
\<close>

definition parseInt :: "jsstring \<Rightarrow> number" where
  "parseInt string =
     (let S = trimStart string;
          neg = (take 1 S = str ''-'');
          S1 = (if take 1 S = str ''+'' \<or> take 1 S = str ''-'' then drop 1 S else S);
          hex = (take 2 S1 = str ''0x'' \<or> take 2 S1 = str ''0X'');
          R = (if hex then 16 else 10);
          S2 = (if hex then drop 2 S1 else S1);
          Z = takeWhile (isRadixDigit R) S2
      in if Z = [] then NaN
         else roundToDouble (if neg then - of_nat (digitsValue R Z) else of_nat (digitsValue R Z)))"

text \<open>
  \<open>parseFloat(string)\<close>: leading white space is stripped and the longest prefix that is a
  StrDecimalLiteral is read: a sign, then \<open>Infinity\<close> or digits with an optional fraction
  and an optional exponent (an exponent counts only when a digit follows it); no such
  prefix gives NaN.
\<close>

definition parseFloat :: "jsstring \<Rightarrow> number" where
  "parseFloat string =
     (let S = trimStart string;
          neg = (take 1 S = str ''-'');
          S1 = (if take 1 S = str ''+'' \<or> take 1 S = str ''-'' then drop 1 S else S)
      in if prefix (str ''Infinity'') S1 then (if neg then NegInf else PosInf)
         else
           let ip = takeWhile (isRadixDigit 10) S1;
               r1 = dropWhile (isRadixDigit 10) S1;
               dot = (take 1 r1 = str ''.'');
               fp = (if dot then takeWhile (isRadixDigit 10) (drop 1 r1) else []);
               r2 = (if dot then dropWhile (isRadixDigit 10) (drop 1 r1) else r1)
           in if ip = [] \<and> fp = [] then NaN
              else
                let ind = (take 1 r2 = str ''e'' \<or> take 1 r2 = str ''E'');
                    r3 = drop 1 r2;
                    eneg = (take 1 r3 = str ''-'');
                    r4 = (if take 1 r3 = str ''+'' \<or> take 1 r3 = str ''-'' then drop 1 r3 else r3);
                    ed = takeWhile (isRadixDigit 10) r4;
                    ex = (if ind \<and> ed \<noteq> []
                          then (if eneg then - int (digitsValue 10 ed) else int (digitsValue 10 ed))
                          else 0);
                    mv = (of_nat (digitsValue 10 ip) + of_nat (digitsValue 10 fp) / 10 ^ length fp)
                           * pow10 ex
                in roundToDouble (if neg then - mv else mv))"

section \<open>The create-pool page\<close>

subsection \<open>State\<close>

record FormData =
  name :: jsstring
  description :: jsstring
  externalUrl :: jsstring
  imageHash :: jsstring
  targetAmount :: jsstring
  durationDays :: jsstring

datatype SubmissionState = Idle | Submitting | Success | Error

text \<open>The component's \<open>useState\<close> cells.\<close>

record page =
  publicKey :: "jsstring option"
  isCheckingWallet :: bool
  formData :: FormData
  submissionState :: SubmissionState
  errorMessage :: jsstring
  txHash :: jsstring
  poolId :: "number option"

text \<open>The argument of \<open>createPool\<close> and what it resolves with.\<close>

record CreatePoolParams =
  name_arg :: jsstring
  description_arg :: jsstring
  externalUrl_arg :: jsstring
  imageHash_arg :: jsstring
  targetAmount_arg :: jsstring
  deadline :: number

record CreatePoolResult =
  txHash_res :: jsstring
  poolId_res :: "number option"

text \<open>
  What \<open>createPool\<close> rejects with. The catch block takes the caught value as \<open>unknown\<close>,
  casts it to \<open>{ message?: string }\<close> without a check, and reads its \<open>message\<close> only. So
  what counts of the caught value is: whether it is null or undefined, where reading a
  property throws a TypeError; and otherwise whether its message is missing (undefined or
  null), a string, or a value of another type, taken to have no \<open>includes\<close> method, so
  that the call throws a TypeError.
\<close>

datatype errorObj = Nullish | NoMessage | Message jsstring | OtherMessage

datatype exn = TypeError

definition initial :: page where
  "initial =
     \<lparr>publicKey = None, isCheckingWallet = True,
      formData = \<lparr>name = [], description = [], externalUrl = [], imageHash = [],
                  targetAmount = [], durationDays = []\<rparr>,
      submissionState = Idle, errorMessage = [], txHash = [], poolId = None\<rparr>"

text \<open>\<open>!publicKey\<close>: null and the empty string are falsy.\<close>

definition noKey :: "jsstring option \<Rightarrow> bool" where
  "noKey k = (case k of None \<Rightarrow> True | Some s \<Rightarrow> s = [])"

subsection \<open>Wallet and field handlers\<close>

definition checkWallet :: "jsstring option \<Rightarrow> page \<Rightarrow> page" where
  "checkWallet key st = st\<lparr>publicKey := key, isCheckingWallet := False\<rparr>"

definition handleConnectWallet :: "jsstring option \<Rightarrow> page \<Rightarrow> page" where
  "handleConnectWallet key st = st\<lparr>publicKey := key\<rparr>"

datatype field = Name | Description | ExternalUrl | ImageHash | TargetAmount | DurationDays

fun handleInputChange :: "field \<Rightarrow> jsstring \<Rightarrow> page \<Rightarrow> page" where
  "handleInputChange Name v st = st\<lparr>formData := (formData st)\<lparr>name := v\<rparr>\<rparr>"
| "handleInputChange Description v st = st\<lparr>formData := (formData st)\<lparr>description := v\<rparr>\<rparr>"
| "handleInputChange ExternalUrl v st = st\<lparr>formData := (formData st)\<lparr>externalUrl := v\<rparr>\<rparr>"
| "handleInputChange ImageHash v st = st\<lparr>formData := (formData st)\<lparr>imageHash := v\<rparr>\<rparr>"
| "handleInputChange TargetAmount v st = st\<lparr>formData := (formData st)\<lparr>targetAmount := v\<rparr>\<rparr>"
| "handleInputChange DurationDays v st = st\<lparr>formData := (formData st)\<lparr>durationDays := v\<rparr>\<rparr>"

subsection \<open>validateForm\<close>

text \<open>Returns the boolean and the state after the \<open>setErrorMessage\<close> call, if any.\<close>

definition validateForm :: "page \<Rightarrow> bool \<times> page" where
  "validateForm st =
     (let fd = formData st in
      if trim (name fd) = [] then
        (False, st\<lparr>errorMessage := str ''Pool name is required''\<rparr>)
      else if trim (description fd) = [] then
        (False, st\<lparr>errorMessage := str ''Description is required''\<rparr>)
      else if 500 < length (description fd) then
        (False, st\<lparr>errorMessage := str ''Description must be 500 characters or less''\<rparr>)
      else if trim (externalUrl fd) = [] then
        (False, st\<lparr>errorMessage := str ''External URL is required''\<rparr>)
      else if 200 < length (externalUrl fd) then
        (False, st\<lparr>errorMessage := str ''External URL must be 200 characters or less''\<rparr>)
      else if trim (imageHash fd) = [] then
        (False, st\<lparr>errorMessage := str ''Image hash is required''\<rparr>)
      else if 100 < length (imageHash fd) then
        (False, st\<lparr>errorMessage := str ''Image hash must be 100 characters or less''\<rparr>)
      else if targetAmount fd = [] \<or> le_zero (parseFloat (targetAmount fd)) then
        (False, st\<lparr>errorMessage := str ''Target amount must be greater than 0''\<rparr>)
      else if durationDays fd = [] \<or> le_zero (parseInt (durationDays fd)) then
        (False, st\<lparr>errorMessage := str ''Duration must be greater than 0 days''\<rparr>)
      else (True, st))"

subsection \<open>handleSubmit\<close>

text \<open>
  \<open>handleSubmit\<close> runs up to its \<open>await\<close>, and later resumes with what \<open>createPool\<close>
  settled with. The first part returns the new state and the request handed to
  \<open>createPool\<close>, if one was made; \<open>now\<close> is \<open>Math.floor(Date.now() / 1000)\<close>, an integer.
\<close>

definition handleSubmit :: "int \<Rightarrow> page \<Rightarrow> page \<times> CreatePoolParams option" where
  "handleSubmit now st =
     (if noKey (publicKey st) then
        (st\<lparr>errorMessage := str ''Please connect your wallet first''\<rparr>, None)
      else
        case validateForm st of
          (False, st1) \<Rightarrow> (st1, None)
        | (True, st1) \<Rightarrow>
            let st2 = st1\<lparr>submissionState := Submitting, errorMessage := []\<rparr>;
                durationSeconds =
                  num_mult (num_mult (num_mult (parseInt (durationDays (formData st))) (Fin 24))
                    (Fin 60)) (Fin 60);
                deadline = num_add (Fin (of_int now)) durationSeconds
            in (st2,
                Some \<lparr>name_arg = name (formData st),
                      description_arg = description (formData st),
                      externalUrl_arg = externalUrl (formData st),
                      imageHash_arg = imageHash (formData st),
                      targetAmount_arg = targetAmount (formData st),
                      deadline = deadline\<rparr>))"

text \<open>After the \<open>await\<close>: the promise resolved.\<close>

definition handleSubmit_resolved :: "CreatePoolResult \<Rightarrow> page \<Rightarrow> page" where
  "handleSubmit_resolved result st =
     st\<lparr>txHash := txHash_res result, poolId := poolId_res result, submissionState := Success\<rparr>"

text \<open>
  The catch block, after \<open>console.error\<close>: the state is set to error first; then
  \<open>message?.includes(...)\<close> is falsy when the message is missing, and \<open>message || ...\<close>
  falls back when it is missing or empty. The result is the state after the setter calls
  that ran, and the exception if the block throws (the handler's promise then rejects).
\<close>

definition handleSubmit_rejected :: "errorObj \<Rightarrow> page \<Rightarrow> page \<times> exn option" where
  "handleSubmit_rejected error st =
     (let st1 = st\<lparr>submissionState := Error\<rparr> in
      case error of
        Nullish \<Rightarrow> (st1, Some TypeError)
      | OtherMessage \<Rightarrow> (st1, Some TypeError)
      | NoMessage \<Rightarrow>
          (st1\<lparr>errorMessage := str ''Failed to create pool. Please try again.''\<rparr>, None)
      | Message m \<Rightarrow>
          (st1\<lparr>errorMessage :=
              (if includes_js m (str ''User rejected'') then
                 str ''Transaction was rejected. Please try again.''
               else if includes_js m (str ''Simulation failed'') then
                 str ''Transaction simulation failed. Please check your inputs.''
               else if includes_js m (str ''Transaction failed'') then
                 str ''Transaction failed: '' @ m
               else if m = [] then str ''Failed to create pool. Please try again.''
               else m)\<rparr>,
           None))"

text \<open>The "Try Again" button's \<open>onClick\<close>.\<close>

definition tryAgain :: "page \<Rightarrow> page" where
  "tryAgain st = st\<lparr>submissionState := Idle, errorMessage := []\<rparr>"

subsection \<open>What the page renders\<close>

text \<open>
  While the wallet check runs the page shows only a spinner. The form is rendered when the
  state is not success and a key is present; its submit button carries
  \<open>disabled={submissionState === "submitting" || !publicKey}\<close> and every input
  \<open>disabled={submissionState === "submitting"}\<close>. The panel with "Try Again" is rendered
  in the error state.
\<close>

definition formRendered :: "page \<Rightarrow> bool" where
  "formRendered st \<longleftrightarrow>
     \<not> isCheckingWallet st \<and> submissionState st \<noteq> Success \<and> \<not> noKey (publicKey st)"

definition submitDisabled :: "page \<Rightarrow> bool" where
  "submitDisabled st \<longleftrightarrow> submissionState st = Submitting \<or> noKey (publicKey st)"

definition inputDisabled :: "page \<Rightarrow> bool" where
  "inputDisabled st \<longleftrightarrow> submissionState st = Submitting"

definition tryAgainRendered :: "page \<Rightarrow> bool" where
  "tryAgainRendered st \<longleftrightarrow> \<not> isCheckingWallet st \<and> submissionState st = Error"

subsection \<open>The page driven by events\<close>

text \<open>
  The page together with the \<open>createPool\<close> gateway: the requests made so far and how many
  of them have not settled. A user event on a control that is not rendered or is disabled
  does not reach its handler. The wallet events and the settling of a request come from
  outside; they are allowed at any time, which only adds behaviours. So does leaving out
  the browser's own checks of the inputs (\<open>required\<close>, \<open>maxLength\<close>, \<open>type\<close>), which can
  only withhold a submit.
\<close>

datatype event =
    WalletChecked "jsstring option"
  | WalletConnected "jsstring option"
  | Change field jsstring
  | Submit int
  | Resolved CreatePoolResult
  | Rejected errorObj
  | TryAgain

record world =
  ui :: page
  requests :: "CreatePoolParams list"
  pending :: nat

definition start :: world where
  "start = \<lparr>ui = initial, requests = [], pending = 0\<rparr>"

fun step :: "event \<Rightarrow> world \<Rightarrow> world" where
  "step (WalletChecked key) w = w\<lparr>ui := checkWallet key (ui w)\<rparr>"
| "step (WalletConnected key) w = w\<lparr>ui := handleConnectWallet key (ui w)\<rparr>"
| "step (Change f v) w =
     (if formRendered (ui w) \<and> \<not> inputDisabled (ui w)
      then w\<lparr>ui := handleInputChange f v (ui w)\<rparr> else w)"
| "step (Submit now) w =
     (if formRendered (ui w) \<and> \<not> submitDisabled (ui w) then
        (case handleSubmit now (ui w) of
           (st, None) \<Rightarrow> w\<lparr>ui := st\<rparr>
         | (st, Some rq) \<Rightarrow> w\<lparr>ui := st, requests := requests w @ [rq], pending := Suc (pending w)\<rparr>)
      else w)"
| "step (Resolved r) w =
     (if 0 < pending w
      then w\<lparr>ui := handleSubmit_resolved r (ui w), pending := pending w - 1\<rparr> else w)"
| "step (Rejected e) w =
     (if 0 < pending w
      then w\<lparr>ui := fst (handleSubmit_rejected e (ui w)), pending := pending w - 1\<rparr> else w)"
| "step TryAgain w = (if tryAgainRendered (ui w) then w\<lparr>ui := tryAgain (ui w)\<rparr> else w)"

definition run :: "event list \<Rightarrow> world \<Rightarrow> world" where
  "run evs w = foldl (\<lambda>w e. step e w) w evs"

text \<open>What holds of the page in every world reached from \<open>start\<close>.\<close>

definition consistent :: "world \<Rightarrow> bool" where
  "consistent w \<longleftrightarrow>
     pending w = (if submissionState (ui w) = Submitting then 1 else 0) \<and>
     (submissionState (ui w) \<noteq> Success \<longrightarrow> txHash (ui w) = [] \<and> poolId (ui w) = None) \<and>
     (submissionState (ui w) = Submitting \<or> submissionState (ui w) = Success
        \<longrightarrow> errorMessage (ui w) = [])"

section \<open>The specification's wording\<close>

text \<open>
  Section 4.1 of the specification: nine rules in priority order, each with its message.
  "Empty" is read as empty after trimming white space, "absent" as the empty string, and
  "parses \<open>\<le> 0\<close>" as the comparison on what \<open>parseFloat\<close> or \<open>parseInt\<close> returns.
\<close>

definition validation_rules :: "((FormData \<Rightarrow> bool) \<times> string) list" where
  "validation_rules =
     [(\<lambda>fd. trim (name fd) = [], ''Pool name is required''),
      (\<lambda>fd. trim (description fd) = [], ''Description is required''),
      (\<lambda>fd. 500 < length (description fd), ''Description must be 500 characters or less''),
      (\<lambda>fd. trim (externalUrl fd) = [], ''External URL is required''),
      (\<lambda>fd. 200 < length (externalUrl fd), ''External URL must be 200 characters or less''),
      (\<lambda>fd. trim (imageHash fd) = [], ''Image hash is required''),
      (\<lambda>fd. 100 < length (imageHash fd), ''Image hash must be 100 characters or less''),
      (\<lambda>fd. targetAmount fd = [] \<or> le_zero (parseFloat (targetAmount fd)),
         ''Target amount must be greater than 0''),
      (\<lambda>fd. durationDays fd = [] \<or> le_zero (parseInt (durationDays fd)),
         ''Duration must be greater than 0 days'')]"

text \<open>\<open>validate\<close>: the message of the first violated rule, or none.\<close>

definition validate_spec :: "FormData \<Rightarrow> string option" where
  "validate_spec fd = map_option snd (find (\<lambda>r. fst r fd) validation_rules)"

text \<open>The first seven rules, those on the four text fields, all pass.\<close>

definition textRulesPass :: "FormData \<Rightarrow> bool" where
  "textRulesPass fd \<longleftrightarrow> list_all (\<lambda>r. \<not> fst r fd) (take 7 validation_rules)"

text \<open>Section 4.3 of the specification: \<open>classify\<close> on the raw message.\<close>

datatype ErrorKind = UserRejected | SimulationFailure | TransactionFailure | Unknown

definition classify_spec :: "jsstring \<Rightarrow> ErrorKind \<times> jsstring" where
  "classify_spec rawMessage =
     (if includes_js rawMessage (str ''User rejected'') then
        (UserRejected, str ''Transaction was rejected. Please try again.'')
      else if includes_js rawMessage (str ''Simulation failed'') then
        (SimulationFailure, str ''Transaction simulation failed. Please check your inputs.'')
      else if includes_js rawMessage (str ''Transaction failed'') then
        (TransactionFailure, str ''Transaction failed: '' @ rawMessage)
      else if rawMessage \<noteq> [] then (Unknown, rawMessage)
      else (Unknown, str ''Failed to create pool. Please try again.''))"

section \<open>Sample inputs\<close>

definition sample_form :: FormData where
  "sample_form =
     \<lparr>name = str ''Clean Water Initiative'', description = str ''Wells for three villages'',
      externalUrl = str ''https://example.com/your-cause'', imageHash = str ''QmImage'',
      targetAmount = str ''1000'', durationDays = str ''30''\<rparr>"

definition sample_page :: page where
  "sample_page =
     \<lparr>publicKey = Some (str ''GABC''), isCheckingWallet = False, formData = sample_form,
      submissionState = Idle, errorMessage = [], txHash = [], poolId = None\<rparr>"

text \<open>The wallet check finds a key and the user fills in the sample form.\<close>

definition sample_filling :: "event list" where
  "sample_filling =
     [WalletChecked (Some (str ''GABC'')),
      Change Name (name sample_form), Change Description (description sample_form),
      Change ExternalUrl (externalUrl sample_form), Change ImageHash (imageHash sample_form),
      Change TargetAmount (targetAmount sample_form),
      Change DurationDays (durationDays sample_form)]"

section \<open>Facts about strings\<close>

lemma str_Nil [simp]: "str [] = []"
  by (simp add: str_def)

lemma str_Cons: "str (c # cs) = word_of_nat (of_char c) # str cs"
  by (simp add: str_def)

lemma length_str [simp]: "length (str s) = length s"
  by (simp add: str_def)

lemma unat_code_unit: "unat (word_of_nat (of_char c) :: 16 word) = of_char c"
proof -
  have "(of_char c :: nat) mod 256 < 256" by simp
  then have "(of_char c :: nat) < 256" by (simp only: of_char_mod_256)
  then have "(of_char c :: nat) < 65536" by linarith
  then show ?thesis by (simp add: unat_of_nat)
qed

lemma str_inject [simp]: "str s = str t \<longleftrightarrow> s = t"
proof
  assume "str s = str t"
  then have "map unat (str s) = map unat (str t)" by simp
  then have "map (of_char :: char \<Rightarrow> nat) s = map of_char t"
    by (simp add: str_def o_def unat_code_unit)
  then have "map char_of (map (of_char :: char \<Rightarrow> nat) s) = map char_of (map (of_char :: char \<Rightarrow> nat) t)"
    by simp
  then show "s = t" by (simp add: o_def)
qed simp

lemma str_eq_Nil [simp]: "str s = [] \<longleftrightarrow> s = []"
  by (simp add: str_def)

lemma dropWhile_all: "(\<forall>x\<in>set (dropWhile P s). P x) \<longleftrightarrow> (\<forall>x\<in>set s. P x)"
proof
  assume a: "\<forall>x\<in>set (dropWhile P s). P x"
  have "dropWhile P s = []"
  proof (rule ccontr)
    assume n: "dropWhile P s \<noteq> []"
    then have "\<not> P (hd (dropWhile P s))" by (rule hd_dropWhile)
    moreover have "hd (dropWhile P s) \<in> set (dropWhile P s)" using n by simp
    ultimately show False using a by blast
  qed
  then show "\<forall>x\<in>set s. P x" by (simp add: dropWhile_eq_Nil_conv)
next
  assume "\<forall>x\<in>set s. P x"
  then show "\<forall>x\<in>set (dropWhile P s). P x" by (meson set_dropWhileD)
qed

text \<open>A string trims to the empty string exactly when it is all white space.\<close>

lemma trim_eq_Nil_iff: "trim s = [] \<longleftrightarrow> (\<forall>c\<in>set s. isWhiteSpace c)"
  by (simp add: trim_def dropWhile_all)

lemma includes_js_prefix: "prefix t s \<Longrightarrow> includes_js s t"
  by (cases s) auto

lemma includes_js_append: "includes_js (p @ t @ q) t"
  by (induction p) (auto simp: includes_js_prefix)

lemma includes_js_sublist: "includes_js s t \<longleftrightarrow> sublist t s"
  by (induction s) (auto simp: sublist_Cons_right)

section \<open>Facts about rounding\<close>

lemma pow2_power_int: "pow2 k = power_int 2 k"
  by (simp add: pow2_def power_int_def inverse_eq_divide power_one_over)

lemma pow2_pos [simp]: "0 < pow2 k"
  by (simp add: pow2_power_int)

lemma pow2_mono: "j \<le> k \<Longrightarrow> pow2 j \<le> pow2 k"
  by (simp add: pow2_power_int power_int_increasing)

lemma roundHalfEven_of_int [simp]: "roundHalfEven (of_int z) = z"
  by (simp add: roundHalfEven_def)

lemma roundHalfEven_numeral [simp]: "roundHalfEven (numeral k) = numeral k"
  using roundHalfEven_of_int [of "numeral k"] by simp

lemma roundHalfEven_nonneg: "0 \<le> q \<Longrightarrow> 0 \<le> roundHalfEven q"
  by (auto simp: roundHalfEven_def Let_def)

lemma roundHalfEven_pos: "1 \<le> q \<Longrightarrow> 1 \<le> roundHalfEven q"
proof -
  assume "1 \<le> q"
  then have "1 \<le> \<lfloor>q\<rfloor>" by simp
  then show ?thesis by (auto simp: roundHalfEven_def Let_def)
qed

lemma ilog2_lower: "0 < a \<Longrightarrow> pow2 (ilog2 a) \<le> a"
proof (cases "1 \<le> a")
  case True
  then have pos: "0 < \<lfloor>a\<rfloor>" by simp
  have b: "0 \<le> bitlen \<lfloor>a\<rfloor> - 1" using pos by (simp add: bitlen_alt_def)
  have "2 ^ nat (bitlen \<lfloor>a\<rfloor> - 1) \<le> \<lfloor>a\<rfloor>" using bitlen_bounds [OF pos] by simp
  then have "(of_int (2 ^ nat (bitlen \<lfloor>a\<rfloor> - 1)) :: rat) \<le> of_int \<lfloor>a\<rfloor>"
    by (simp only: of_int_le_iff)
  also have "\<dots> \<le> a" by simp
  finally show ?thesis using True b by (simp add: ilog2_def pow2_def)
next
  case False
  assume a: "0 < a"
  define c where "c = \<lceil>1 / a\<rceil>"
  have "1 < 1 / a" using a False by simp
  then have c2: "2 \<le> c" unfolding c_def by (simp add: less_ceiling_iff)
  then have pos: "0 < c - 1" by simp
  have "c - 1 < 2 ^ nat (bitlen (c - 1))" using bitlen_bounds [OF pos] by simp
  then have "c \<le> 2 ^ nat (bitlen (c - 1))" by simp
  then have "(of_int c :: rat) \<le> of_int (2 ^ nat (bitlen (c - 1)))" by (simp only: of_int_le_iff)
  also have "\<dots> = 2 ^ nat (bitlen (c - 1))" by simp
  finally have "(of_int c :: rat) \<le> 2 ^ nat (bitlen (c - 1))" .
  moreover have "1 / a \<le> of_int c" unfolding c_def by simp
  ultimately have le: "1 / a \<le> 2 ^ nat (bitlen (c - 1))" by (rule order_trans [rotated])
  have bp: "0 < bitlen (c - 1)" using pos by (simp add: bitlen_alt_def)
  have "1 / 2 ^ nat (bitlen (c - 1)) \<le> a"
    using le a by (simp add: field_simps)
  then show ?thesis using False bp by (simp add: ilog2_def pow2_def c_def)
qed

lemma ilog2_upper: "0 < a \<Longrightarrow> a < pow2 (ilog2 a + 1)"
proof (cases "1 \<le> a")
  case True
  then have pos: "0 < \<lfloor>a\<rfloor>" by simp
  have b: "0 \<le> bitlen \<lfloor>a\<rfloor>" by (rule bitlen_nonneg)
  have "\<lfloor>a\<rfloor> < 2 ^ nat (bitlen \<lfloor>a\<rfloor>)" using bitlen_bounds [OF pos] by simp
  then have "\<lfloor>a\<rfloor> + 1 \<le> 2 ^ nat (bitlen \<lfloor>a\<rfloor>)" by simp
  then have "(of_int (\<lfloor>a\<rfloor> + 1) :: rat) \<le> of_int (2 ^ nat (bitlen \<lfloor>a\<rfloor>))"
    by (simp only: of_int_le_iff)
  moreover have "a < of_int (\<lfloor>a\<rfloor> + 1)" by linarith
  ultimately have "a < of_int (2 ^ nat (bitlen \<lfloor>a\<rfloor>))" by (rule less_le_trans [rotated])
  then show ?thesis using True b by (simp add: ilog2_def pow2_def)
next
  case False
  assume a: "0 < a"
  define c where "c = \<lceil>1 / a\<rceil>"
  have "1 < 1 / a" using a False by simp
  then have c2: "2 \<le> c" unfolding c_def by (simp add: less_ceiling_iff)
  then have pos: "0 < c - 1" by simp
  have bp: "0 < bitlen (c - 1)" using pos by (simp add: bitlen_alt_def)
  have "2 ^ nat (bitlen (c - 1) - 1) \<le> c - 1" using bitlen_bounds [OF pos] by simp
  then have "(of_int (2 ^ nat (bitlen (c - 1) - 1)) :: rat) \<le> of_int (c - 1)"
    by (simp only: of_int_le_iff)
  moreover have "of_int (c - 1) < 1 / a" unfolding c_def by linarith
  ultimately have lt: "(of_int (2 ^ nat (bitlen (c - 1) - 1)) :: rat) < 1 / a"
    by (rule le_less_trans)
  then have "a < 1 / 2 ^ nat (bitlen (c - 1) - 1)"
    using a by (simp add: field_simps)
  moreover have "pow2 (1 - bitlen (c - 1)) = 1 / 2 ^ nat (bitlen (c - 1) - 1)"
    using bp by (cases "bitlen (c - 1) = 1") (simp_all add: pow2_def)
  ultimately show ?thesis using False by (simp add: ilog2_def c_def)
qed

lemma roundToDouble_pos:
  assumes "0 < x" "pow2 (- 1074) \<le> x"
  shows "\<not> le_zero (roundToDouble x)"
proof -
  define e where "e = max (ilog2 \<bar>x\<bar>) (- 1022)"
  define u where "u = pow2 (e - 52)"
  have upos: "0 < u" by (simp add: u_def)
  have "u \<le> x"
  proof (cases "ilog2 \<bar>x\<bar> \<le> - 1022")
    case True
    then have "e = - 1022" by (simp add: e_def)
    then show ?thesis using assms by (simp add: u_def)
  next
    case False
    then have "e = ilog2 x" using assms by (simp add: e_def)
    then have "u \<le> pow2 (ilog2 x)" unfolding u_def by (intro pow2_mono) simp
    also have "\<dots> \<le> x" using assms by (intro ilog2_lower)
    finally show ?thesis .
  qed
  then have "1 \<le> x / u" using upos by (simp add: field_simps)
  then have "1 \<le> roundHalfEven (x / u)" by (rule roundHalfEven_pos)
  then have "0 < (of_int (roundHalfEven (x / u)) :: rat) * u" using upos by simp
  then show ?thesis
    using assms unfolding u_def e_def by (simp add: roundToDouble_def Let_def)
qed

lemma roundToDouble_nonpos:
  assumes "x \<le> 0"
  shows "le_zero (roundToDouble x)"
proof (cases "x = 0")
  case True
  then show ?thesis by (simp add: roundToDouble_def)
next
  case False
  define u where "u = pow2 (max (ilog2 \<bar>x\<bar>) (- 1022) - 52)"
  have upos: "0 < u" by (simp add: u_def)
  have "0 \<le> \<bar>x\<bar> / u" using upos by simp
  then have "0 \<le> roundHalfEven (\<bar>x\<bar> / u)" by (rule roundHalfEven_nonneg)
  then have "0 \<le> (of_int (roundHalfEven (\<bar>x\<bar> / u)) :: rat) * u" using upos by simp
  then show ?thesis
    using assms False unfolding u_def by (simp add: roundToDouble_def Let_def)
qed

text \<open>Integers up to \<open>2 ^ 53\<close> in magnitude are doubles.\<close>

lemma ilog2_of_int: "1 \<le> m \<Longrightarrow> ilog2 (of_int m) = bitlen m - 1"
  by (simp add: ilog2_def)

lemma roundToDouble_of_int:
  assumes "\<bar>n\<bar> \<le> 2 ^ 53"
  shows "roundToDouble (of_int n) = Fin (of_int n)"
proof (cases "n = 0")
  case True
  then show ?thesis by (simp add: roundToDouble_def)
next
  case False
  define m where "m = \<bar>n\<bar>"
  have m1: "1 \<le> m" and m53: "m \<le> 2 ^ 53" using False assms by (simp_all add: m_def)
  have mpos: "0 < m" using m1 by simp
  define e where "e = bitlen m - 1"
  have e0: "0 \<le> e" using mpos by (simp add: e_def bitlen_alt_def)
  have lo: "2 ^ nat e \<le> m" using bitlen_bounds [OF mpos] by (simp add: e_def)
  have e53: "e \<le> 53"
  proof (rule ccontr)
    assume "\<not> e \<le> 53"
    then have "54 \<le> nat e" by simp
    then have "(2::int) ^ 54 \<le> 2 ^ nat e" by (intro power_increasing) simp_all
    then show False using lo m53 by simp
  qed
  have abs_eq: "\<bar>(of_int n :: rat)\<bar> = of_int m" by (simp add: m_def)
  have il: "max (ilog2 (of_int m)) (- 1022) = e"
    using e0 m1 by (simp add: ilog2_of_int e_def)
  have v: "(of_int (roundHalfEven (of_int m / pow2 (e - 52))) :: rat) * pow2 (e - 52) = of_int m"
  proof (cases "e \<le> 52")
    case True
    define j where "j = nat (52 - e)"
    have p: "pow2 (e - 52) = 1 / 2 ^ j"
    proof (cases "e = 52")
      case True then show ?thesis by (simp add: pow2_def j_def)
    next
      case False
      then have "\<not> 0 \<le> e - 52" using True by simp
      then show ?thesis by (simp add: pow2_def j_def)
    qed
    have "(of_int m :: rat) / pow2 (e - 52) = of_int (m * 2 ^ j)" by (simp add: p)
    then have "roundHalfEven (of_int m / pow2 (e - 52)) = m * 2 ^ j"
      by (simp only: roundHalfEven_of_int)
    then show ?thesis by (simp add: p)
  next
    case False
    then have e: "e = 53" using e53 by simp
    then have "nat e = 53" by simp
    then have "m = 2 ^ 53" using lo m53 by simp
    moreover have "pow2 (e - 52) = 2" using e by (simp add: pow2_def)
    moreover have "((2 ^ 53 :: rat) / 2) = of_int (2 ^ 52)" by simp
    ultimately show ?thesis by (simp only: roundHalfEven_of_int of_int_power of_int_numeral) simp
  qed
  have small: "\<not> pow2 1024 \<le> (of_int m :: rat)"
  proof -
    have "(of_int m :: rat) \<le> of_int (2 ^ 53)" using m53 by (simp only: of_int_le_iff)
    also have "\<dots> = pow2 53" by (simp add: pow2_def)
    also have "\<dots> < pow2 1024" by (simp add: pow2_power_int)
    finally show ?thesis by simp
  qed
  have "roundToDouble (of_int n) =
        (if pow2 1024 \<le> (of_int m :: rat) then (if 0 < n then PosInf else NegInf)
         else Fin (if 0 < n then of_int m else - of_int m))"
    using False unfolding roundToDouble_def Let_def abs_eq il v by simp
  also have "\<dots> = Fin (if 0 < n then of_int m else - of_int m)"
    using small by simp
  also have "(if 0 < n then (of_int m :: rat) else - of_int m) = of_int n"
    by (simp add: m_def)
  finally show ?thesis .
qed

text \<open>
  The decimal 0.1 rounds to the double \<open>3602879701896397 / 2 ^ 55\<close>, and the tie
  \<open>2 ^ 53 + 1\<close> goes to the even significand.
\<close>

lemma roundToDouble_examples:
  "roundToDouble (1 / 10) = Fin (3602879701896397 / 36028797018963968)"
  "roundToDouble 9007199254740993 = Fin 9007199254740992"
  by code_simp+

section \<open>Facts about the handlers\<close>

text \<open>\<open>validateForm\<close> reports the first violated rule of the specification's list.\<close>

lemma validateForm_spec:
  "validateForm st =
     (case validate_spec (formData st) of
        None \<Rightarrow> (True, st)
      | Some m \<Rightarrow> (False, st\<lparr>errorMessage := str m\<rparr>))"
  by (simp add: validateForm_def validate_spec_def validation_rules_def Let_def)

lemma validation_rules_distinct: "distinct (map snd validation_rules)"
  by (simp add: validation_rules_def)

lemma length_validation_rules: "length validation_rules = 9"
  by (simp add: validation_rules_def)

lemma rejected_message:
  "handleSubmit_rejected (Message m) st =
     (st\<lparr>submissionState := Error, errorMessage := snd (classify_spec m)\<rparr>, None)"
  "handleSubmit_rejected NoMessage st =
     (st\<lparr>submissionState := Error, errorMessage := snd (classify_spec [])\<rparr>, None)"
  by (simp_all add: handleSubmit_rejected_def classify_spec_def Let_def)

lemma rejected_throws:
  "handleSubmit_rejected Nullish st = (st\<lparr>submissionState := Error\<rparr>, Some TypeError)"
  "handleSubmit_rejected OtherMessage st = (st\<lparr>submissionState := Error\<rparr>, Some TypeError)"
  by (simp_all add: handleSubmit_rejected_def Let_def)

lemma classify_nonempty: "snd (classify_spec raw) \<noteq> []"
  by (simp add: classify_spec_def)

text \<open>
  On a caught value with a string message, or with none (which counts as the empty
  message), the catch block is the specification's \<open>classify\<close>: one message, never the
  empty one, by the substring priority; "User rejected" anywhere in the raw message gives
  UserRejected, and the empty raw message gives Unknown with the fallback.
\<close>

lemma catch_block_classifies:
  "errorMessage (fst (handleSubmit_rejected (Message m) st)) = snd (classify_spec m) \<and>
   errorMessage (fst (handleSubmit_rejected NoMessage st)) = snd (classify_spec []) \<and>
   submissionState (fst (handleSubmit_rejected e st)) = Error \<and>
   errorMessage (fst (handleSubmit_rejected (Message m) st)) \<noteq> [] \<and>
   errorMessage (fst (handleSubmit_rejected NoMessage st)) \<noteq> [] \<and>
   classify_spec (p @ str ''User rejected'' @ q) =
     (UserRejected, str ''Transaction was rejected. Please try again.'') \<and>
   classify_spec [] = (Unknown, str ''Failed to create pool. Please try again.'')"
proof -
  have "submissionState (fst (handleSubmit_rejected e st)) = Error"
    by (cases e) (simp_all add: rejected_message rejected_throws)
  moreover have "classify_spec (p @ str ''User rejected'' @ q) =
      (UserRejected, str ''Transaction was rejected. Please try again.'')"
    by (simp add: classify_spec_def includes_js_append)
  moreover have "classify_spec [] = (Unknown, str ''Failed to create pool. Please try again.'')"
    by (simp add: classify_spec_def)
  ultimately show ?thesis
    by (simp add: rejected_message classify_nonempty)
qed

text \<open>Evaluation on concrete strings.\<close>

lemma roundToDouble_numeral:
  "(numeral k :: int) \<le> 2 ^ 53 \<Longrightarrow> roundToDouble (numeral k) = Fin (numeral k)"
  using roundToDouble_of_int [of "numeral k"] by simp

lemmas parse_defs = parseInt_def parseFloat_def trimStart_def str_Cons isWhiteSpace_def
  isRadixDigit_def digitVal_def digitsValue_def pow10_def Let_def

lemma trim_Cons_nonwhite: "\<not> isWhiteSpace c \<Longrightarrow> trim (c # s) \<noteq> []"
  by (auto simp: trim_eq_Nil_iff)

lemma trim_str_nonwhite:
  "\<not> isWhiteSpace (word_of_nat (of_char c)) \<Longrightarrow> trim (str (c # s)) \<noteq> []"
  by (simp add: str_Cons trim_Cons_nonwhite)

text \<open>Once the text rules pass, the two numeric rules decide.\<close>

lemma validate_spec_numeric:
  "textRulesPass fd \<Longrightarrow>
   validate_spec fd =
     (if targetAmount fd = [] \<or> le_zero (parseFloat (targetAmount fd))
      then Some ''Target amount must be greater than 0''
      else if durationDays fd = [] \<or> le_zero (parseInt (durationDays fd))
      then Some ''Duration must be greater than 0 days''
      else None)"
  by (simp add: textRulesPass_def validate_spec_def validation_rules_def)

lemma textRulesPass_numeric_update [simp]:
  "textRulesPass (fd\<lparr>targetAmount := a\<rparr>) = textRulesPass fd"
  "textRulesPass (fd\<lparr>durationDays := d\<rparr>) = textRulesPass fd"
  by (simp_all add: textRulesPass_def validation_rules_def)

lemma sample_text: "textRulesPass sample_form"
  by (simp add: textRulesPass_def validation_rules_def sample_form_def trim_str_nonwhite
      isWhiteSpace_def)

lemma sample_amount: "parseFloat (targetAmount sample_form) = Fin 1000"
  by (simp add: sample_form_def parse_defs roundToDouble_numeral)

lemma sample_duration: "parseInt (durationDays sample_form) = Fin 30"
  by (simp add: sample_form_def parse_defs roundToDouble_numeral)

lemma sample_numeric_present: "targetAmount sample_form \<noteq> []" "durationDays sample_form \<noteq> []"
  by (simp_all add: sample_form_def)

lemma sample_form_passes: "validate_spec sample_form = None"
  by (simp add: validate_spec_numeric sample_text sample_amount sample_duration
      sample_numeric_present)

text \<open>The three ways through the first part of \<open>handleSubmit\<close>.\<close>

lemma handleSubmit_no_key:
  "noKey (publicKey st) \<Longrightarrow>
   handleSubmit now st = (st\<lparr>errorMessage := str ''Please connect your wallet first''\<rparr>, None)"
  by (simp add: handleSubmit_def)

lemma handleSubmit_invalid:
  "\<not> noKey (publicKey st) \<Longrightarrow> validate_spec (formData st) = Some m \<Longrightarrow>
   handleSubmit now st = (st\<lparr>errorMessage := str m\<rparr>, None)"
  by (simp add: handleSubmit_def validateForm_spec)

lemma handleSubmit_valid:
  "\<not> noKey (publicKey st) \<Longrightarrow> validate_spec (formData st) = None \<Longrightarrow>
   handleSubmit now st =
     (st\<lparr>submissionState := Submitting, errorMessage := []\<rparr>,
      Some \<lparr>name_arg = name (formData st),
            description_arg = description (formData st),
            externalUrl_arg = externalUrl (formData st),
            imageHash_arg = imageHash (formData st),
            targetAmount_arg = targetAmount (formData st),
            deadline =
              num_add (Fin (of_int now))
                (num_mult (num_mult (num_mult (parseInt (durationDays (formData st))) (Fin 24))
                   (Fin 60)) (Fin 60))\<rparr>)"
  by (simp add: handleSubmit_def validateForm_spec Let_def)

lemma minus_five: "le_zero (parseFloat (str ''-5''))"
  by (simp add: parse_defs roundToDouble_nonpos)

lemma zero_amount: "parseFloat (str ''0'') = Fin 0"
  by (simp add: parse_defs roundToDouble_def)

lemma tiny_amount: "\<not> le_zero (parseFloat (str ''0.0000001''))"
  by (simp add: parse_defs roundToDouble_pos pow2_def)

lemma not_a_number: "parseFloat (str ''abc'') = NaN" "parseInt (str ''abc'') = NaN"
  by (simp_all add: parse_defs)

text \<open>Arithmetic on integers is exact up to \<open>2 ^ 53\<close>.\<close>

lemma num_mult_int:
  "\<bar>a * b\<bar> \<le> 2 ^ 53 \<Longrightarrow> num_mult (Fin (of_int a)) (Fin (of_int b)) = Fin (of_int (a * b))"
  using roundToDouble_of_int [of "a * b"] by simp

lemma num_add_int:
  "\<bar>a + b\<bar> \<le> 2 ^ 53 \<Longrightarrow> num_add (Fin (of_int a)) (Fin (of_int b)) = Fin (of_int (a + b))"
  using roundToDouble_of_int [of "a + b"] by simp

lemma validate_spec_None_duration:
  "validate_spec fd = None \<Longrightarrow> \<not> le_zero (parseInt (durationDays fd))"
  by (auto simp: validate_spec_def validation_rules_def split: if_splits)

lemma large_duration: "parseInt (str ''200000000000'') = Fin 200000000000"
  by (simp add: parse_defs roundToDouble_numeral)

lemma odd_sum_rounds:
  "roundToDouble 17280000000000000 = Fin 17280000000000000"
  "roundToDouble 17280001700000001 = Fin 17280001700000000"
  by code_simp+

lemma padded_description:
  "trim (97 # replicate 500 32) = [97]" "length (97 # replicate 500 32 :: jsstring) = 501"
  by (simp_all add: trim_def isWhiteSpace_def dropWhile_append3)

section \<open>Facts about the page driven by events\<close>

lemma handleSubmit_cases:
  "(\<exists>m. handleSubmit now st = (st\<lparr>errorMessage := m\<rparr>, None)) \<or>
   (\<exists>rq. handleSubmit now st =
      (st\<lparr>submissionState := Submitting, errorMessage := []\<rparr>, Some rq))"
proof (cases "noKey (publicKey st)")
  case True
  then show ?thesis using handleSubmit_no_key by blast
next
  case False
  show ?thesis
  proof (cases "validate_spec (formData st)")
    case None
    then show ?thesis using False by (simp add: handleSubmit_valid)
  next
    case (Some m)
    then show ?thesis using False handleSubmit_invalid by blast
  qed
qed

lemma consistent_start: "consistent start"
  by (simp add: consistent_def start_def initial_def)

lemma consistent_step: "consistent w \<Longrightarrow> consistent (step e w)"
proof (cases e)
  case (WalletChecked k)
  assume "consistent w"
  then show ?thesis using WalletChecked by (simp add: consistent_def checkWallet_def)
next
  case (WalletConnected k)
  assume "consistent w"
  then show ?thesis using WalletConnected by (simp add: consistent_def handleConnectWallet_def)
next
  case (Change f v)
  assume "consistent w"
  then show ?thesis using Change by (cases f) (simp_all add: consistent_def)
next
  case (Submit now)
  assume c: "consistent w"
  show ?thesis
  proof (cases "formRendered (ui w) \<and> \<not> submitDisabled (ui w)")
    case False
    then show ?thesis using c Submit by auto
  next
    case True
    then have s: "submissionState (ui w) \<noteq> Success" "submissionState (ui w) \<noteq> Submitting"
      by (simp_all add: formRendered_def submitDisabled_def)
    from handleSubmit_cases [of now "ui w"] show ?thesis
    proof
      assume "\<exists>m. handleSubmit now (ui w) = ((ui w)\<lparr>errorMessage := m\<rparr>, None)"
      then show ?thesis using c Submit True s by (auto simp: consistent_def)
    next
      assume "\<exists>rq. handleSubmit now (ui w) =
        ((ui w)\<lparr>submissionState := Submitting, errorMessage := []\<rparr>, Some rq)"
      then show ?thesis using c Submit True s by (auto simp: consistent_def)
    qed
  qed
next
  case (Resolved r)
  assume "consistent w"
  then show ?thesis using Resolved
    by (auto simp: consistent_def handleSubmit_resolved_def split: if_splits)
next
  case (Rejected x)
  assume "consistent w"
  then show ?thesis using Rejected
    by (cases x) (auto simp: consistent_def rejected_message rejected_throws split: if_splits)
next
  case TryAgain
  assume "consistent w"
  then show ?thesis using TryAgain
    by (auto simp: consistent_def tryAgain_def tryAgainRendered_def split: if_splits)
qed

lemma consistent_run_from: "consistent w \<Longrightarrow> consistent (run evs w)"
  by (induction evs arbitrary: w) (simp_all add: run_def consistent_step)

lemma consistent_run: "consistent (run evs start)"
  by (rule consistent_run_from [OF consistent_start])

lemma run_append: "run (xs @ ys) w = run ys (run xs w)"
  by (simp add: run_def)

lemma run_single: "run [e] w = step e w"
  by (simp add: run_def)

lemma sample_filled: "run sample_filling start = \<lparr>ui = sample_page, requests = [], pending = 0\<rparr>"
  by (simp add: sample_filling_def run_def start_def initial_def sample_page_def sample_form_def
      checkWallet_def formRendered_def inputDisabled_def noKey_def)

lemma sample_key: "\<not> noKey (publicKey sample_page)"
  by (simp add: sample_page_def noKey_def)

lemma sample_page_form: "formData sample_page = sample_form"
  by (simp add: sample_page_def)

lemma sample_submitted:
  "ui (run (sample_filling @ [Submit 1700000000]) start) =
     sample_page\<lparr>submissionState := Submitting\<rparr> \<and>
   map (\<lambda>rq. (targetAmount_arg rq, deadline rq)) (requests (run (sample_filling @ [Submit 1700000000]) start)) =
     [(str ''1000'', Fin 1702592000)] \<and>
   pending (run (sample_filling @ [Submit 1700000000]) start) = 1"
proof -
  have v: "validate_spec (formData sample_page) = None"
    by (simp add: sample_page_form sample_form_passes)
  have g: "formRendered sample_page \<and> \<not> submitDisabled sample_page"
    by (simp add: formRendered_def submitDisabled_def sample_page_def noKey_def)
  show ?thesis
    using g
    by (simp add: run_append run_single sample_filled handleSubmit_valid [OF sample_key v]
        sample_page_form sample_duration roundToDouble_numeral)
      (simp add: sample_page_def sample_form_def)
qed

section \<open>The claims\<close>

text \<open>
  C1. A submit while the state is submitting is a no-op: the submit button is disabled
  then, so the page (its state, stored hash and pool id, and error message) and the
  requests made to \<open>createPool\<close> stay as they are, and from the initial page at most one
  request is ever pending. (\<open>handleSubmit\<close> run on a submitting page keeps it submitting
  and does not touch the stored result.)
\<close>

theorem submit_while_submitting:
  "(submissionState (ui w) = Submitting \<longrightarrow> step (Submit now) w = w) \<and>
   pending (run evs start) \<le> 1 \<and>
   (submissionState st = Submitting \<longrightarrow>
      submissionState (fst (handleSubmit now st)) = Submitting \<and>
      txHash (fst (handleSubmit now st)) = txHash st \<and>
      poolId (fst (handleSubmit now st)) = poolId st)"
proof (intro conjI impI)
  assume "submissionState (ui w) = Submitting"
  then show "step (Submit now) w = w" by (simp add: submitDisabled_def)
next
  show "pending (run evs start) \<le> 1"
    using consistent_run [of evs] by (simp add: consistent_def split: if_splits)
next
  assume s: "submissionState st = Submitting"
  from handleSubmit_cases [of now st]
  show "submissionState (fst (handleSubmit now st)) = Submitting" using s by auto
  from handleSubmit_cases [of now st]
  show "txHash (fst (handleSubmit now st)) = txHash st" by auto
  from handleSubmit_cases [of now st]
  show "poolId (fst (handleSubmit now st)) = poolId st" by auto
qed

text \<open>The sample form submitted twice in a row: the second submit is lost.\<close>

theorem submit_while_submitting_witness:
  "submissionState (ui (run (sample_filling @ [Submit 1700000000]) start)) = Submitting \<and>
   step (Submit 1700000001) (run (sample_filling @ [Submit 1700000000]) start) =
     run (sample_filling @ [Submit 1700000000]) start \<and>
   pending (run (sample_filling @ [Submit 1700000000, Submit 1700000001]) start) = 1"
proof -
  let ?w = "run (sample_filling @ [Submit 1700000000]) start"
  have s: "submissionState (ui ?w) = Submitting" using sample_submitted by simp
  with submit_while_submitting [of ?w 1700000001]
  have n: "step (Submit 1700000001) ?w = ?w" by simp
  have "run (sample_filling @ [Submit 1700000000, Submit 1700000001]) start =
      step (Submit 1700000001) ?w"
    using run_append [of "sample_filling @ [Submit 1700000000]" "[Submit 1700000001]" start]
    by (simp add: run_single)
  then show ?thesis using s n sample_submitted by simp
qed

text \<open>
  C2. In every state the page reaches from its initial state, an error message and a
  result (transaction hash, pool id) are never stored together: the result is empty unless
  the state is success, and the error message is empty in the submitting and success
  states. At every transition into submitting both are empty; \<open>handleSubmit\<close>, when it
  makes a request, empties the error message and sets the state, and changes nothing else.
\<close>

theorem results_exclusive:
  "(submissionState (ui (run evs start)) \<noteq> Success \<longrightarrow>
      txHash (ui (run evs start)) = [] \<and> poolId (ui (run evs start)) = None) \<and>
   (submissionState (ui (run evs start)) = Submitting \<or>
    submissionState (ui (run evs start)) = Success \<longrightarrow>
      errorMessage (ui (run evs start)) = []) \<and>
   (errorMessage (ui (run evs start)) = [] \<or>
    txHash (ui (run evs start)) = [] \<and> poolId (ui (run evs start)) = None) \<and>
   (submissionState (ui (run evs start)) \<noteq> Submitting \<and>
    submissionState (ui (step e (run evs start))) = Submitting \<longrightarrow>
      errorMessage (ui (step e (run evs start))) = [] \<and>
      txHash (ui (step e (run evs start))) = [] \<and>
      poolId (ui (step e (run evs start))) = None) \<and>
   (snd (handleSubmit now st) \<noteq> None \<longrightarrow>
      fst (handleSubmit now st) = st\<lparr>submissionState := Submitting, errorMessage := []\<rparr>)"
proof (intro conjI impI)
  assume "submissionState (ui (run evs start)) \<noteq> Success"
  then show "txHash (ui (run evs start)) = []" and "poolId (ui (run evs start)) = None"
    using consistent_run [of evs] by (simp_all add: consistent_def)
next
  assume "submissionState (ui (run evs start)) = Submitting \<or>
    submissionState (ui (run evs start)) = Success"
  then show "errorMessage (ui (run evs start)) = []"
    using consistent_run [of evs] by (simp add: consistent_def)
next
  show "errorMessage (ui (run evs start)) = [] \<or>
    txHash (ui (run evs start)) = [] \<and> poolId (ui (run evs start)) = None"
    using consistent_run [of evs] by (auto simp: consistent_def)
next
  assume a: "submissionState (ui (run evs start)) \<noteq> Submitting \<and>
    submissionState (ui (step e (run evs start))) = Submitting"
  have c: "consistent (step e (run evs start))"
    using consistent_run [of evs] by (rule consistent_step)
  from a c show "errorMessage (ui (step e (run evs start))) = []"
    by (simp add: consistent_def)
  from a c show "txHash (ui (step e (run evs start))) = []"
    by (simp add: consistent_def)
  from a c show "poolId (ui (step e (run evs start))) = None"
    by (simp add: consistent_def)
next
  assume "snd (handleSubmit now st) \<noteq> None"
  then show "fst (handleSubmit now st) = st\<lparr>submissionState := Submitting, errorMessage := []\<rparr>"
    using handleSubmit_cases [of now st] by auto
qed

text \<open>
  The sample form submitted from the idle page; and a submit on a page that shows an old
  inline message.
\<close>

theorem results_exclusive_witness:
  "submissionState (ui (run sample_filling start)) = Idle \<and>
   submissionState (ui (step (Submit 1700000000) (run sample_filling start))) = Submitting \<and>
   errorMessage (ui (step (Submit 1700000000) (run sample_filling start))) = [] \<and>
   txHash (ui (step (Submit 1700000000) (run sample_filling start))) = [] \<and>
   poolId (ui (step (Submit 1700000000) (run sample_filling start))) = None \<and>
   submissionState (ui (run (sample_filling @ [Submit 1700000000]) start)) = Submitting \<and>
   txHash (ui (run (sample_filling @ [Submit 1700000000]) start)) = [] \<and>
   poolId (ui (run (sample_filling @ [Submit 1700000000]) start)) = None \<and>
   errorMessage (ui (run (sample_filling @ [Submit 1700000000]) start)) = [] \<and>
   snd (handleSubmit 1700000000 (sample_page\<lparr>errorMessage := str ''Pool name is required''\<rparr>)) \<noteq> None \<and>
   errorMessage (fst (handleSubmit 1700000000 (sample_page\<lparr>errorMessage := str ''Pool name is required''\<rparr>))) = []"
proof -
  let ?evs = "sample_filling @ [Submit 1700000000]"
  let ?st = "sample_page\<lparr>errorMessage := str ''Pool name is required''\<rparr>"
  have s: "submissionState (ui (run ?evs start)) = Submitting" using sample_submitted by simp
  have i: "submissionState (ui (run sample_filling start)) = Idle"
    by (simp add: sample_filled sample_page_def)
  have e: "step (Submit 1700000000) (run sample_filling start) = run ?evs start"
    by (simp add: run_append run_single)
  have s': "submissionState (ui (step (Submit 1700000000) (run sample_filling start))) = Submitting"
    using s by (simp only: e)
  have k: "\<not> noKey (publicKey ?st)" using sample_key by simp
  have v: "validate_spec (formData ?st) = None"
    by (simp add: sample_page_form sample_form_passes)
  have r: "snd (handleSubmit 1700000000 ?st) \<noteq> None"
    by (simp add: handleSubmit_valid [OF k v])
  from results_exclusive [where evs = ?evs and now = 1700000000 and st = ?st] s r
    results_exclusive [where evs = sample_filling and e = "Submit 1700000000"] i s'
  show ?thesis by simp
qed

text \<open>
  C3. \<open>validateForm\<close> reports the first violated rule and no other: when rule \<open>i\<close> of the
  nine is violated and no rule before it is, the result is false with rule \<open>i\<close>'s message,
  which is the message of no later rule; when no rule is violated the result is true and
  the state is untouched. ("Empty" means empty after trimming, as C10 states.)
\<close>

theorem validateForm_first_violation:
  "(\<forall>i<length validation_rules.
      fst (validation_rules ! i) (formData st) \<and>
      (\<forall>j<i. \<not> fst (validation_rules ! j) (formData st)) \<longrightarrow>
      validateForm st = (False, st\<lparr>errorMessage := str (snd (validation_rules ! i))\<rparr>) \<and>
      (\<forall>k<length validation_rules. i < k \<longrightarrow>
         errorMessage (snd (validateForm st)) \<noteq> str (snd (validation_rules ! k)))) \<and>
   ((\<forall>i<length validation_rules. \<not> fst (validation_rules ! i) (formData st)) \<longrightarrow>
      validateForm st = (True, st)) \<and>
   length validation_rules = 9"
proof (intro conjI allI impI)
  fix i
  assume i: "i < length validation_rules"
    and v: "fst (validation_rules ! i) (formData st) \<and>
      (\<forall>j<i. \<not> fst (validation_rules ! j) (formData st))"
  then have "find (\<lambda>r. fst r (formData st)) validation_rules = Some (validation_rules ! i)"
    by (auto simp: find_Some_iff)
  then have vs: "validate_spec (formData st) = Some (snd (validation_rules ! i))"
    by (simp add: validate_spec_def)
  then show r: "validateForm st = (False, st\<lparr>errorMessage := str (snd (validation_rules ! i))\<rparr>)"
    by (simp add: validateForm_spec)
  fix k
  assume k: "k < length validation_rules" "i < k"
  have "map snd validation_rules ! i \<noteq> map snd validation_rules ! k"
    using validation_rules_distinct i k unfolding distinct_conv_nth by auto
  then have "snd (validation_rules ! i) \<noteq> snd (validation_rules ! k)"
    using i k by simp
  then show "errorMessage (snd (validateForm st)) \<noteq> str (snd (validation_rules ! k))"
    by (simp add: r)
next
  assume "\<forall>i<length validation_rules. \<not> fst (validation_rules ! i) (formData st)"
  then have "find (\<lambda>r. fst r (formData st)) validation_rules = None"
    by (auto simp: find_None_iff in_set_conv_nth)
  then show "validateForm st = (True, st)"
    by (simp add: validateForm_spec validate_spec_def)
next
  show "length validation_rules = 9" by (rule length_validation_rules)
qed

text \<open>A description of 501 characters and a target amount of "0" violate rules 3 and 8:
  the message is rule 3's.\<close>

theorem validateForm_first_violation_witness:
  "fst (validation_rules ! 2)
     (sample_form\<lparr>description := replicate 501 120, targetAmount := str ''0''\<rparr>) \<and>
   fst (validation_rules ! 7)
     (sample_form\<lparr>description := replicate 501 120, targetAmount := str ''0''\<rparr>) \<and>
   validateForm
     (sample_page\<lparr>formData :=
        sample_form\<lparr>description := replicate 501 120, targetAmount := str ''0''\<rparr>\<rparr>) =
     (False,
      sample_page\<lparr>formData :=
          sample_form\<lparr>description := replicate 501 120, targetAmount := str ''0''\<rparr>,
        errorMessage := str ''Description must be 500 characters or less''\<rparr>)"
proof -
  let ?fd = "sample_form\<lparr>description := replicate 501 120, targetAmount := str ''0''\<rparr>"
  let ?st = "sample_page\<lparr>formData := ?fd\<rparr>"
  have fd: "formData ?st = ?fd" by simp
  have r2: "fst (validation_rules ! 2) ?fd" by (simp add: validation_rules_def)
  have r7: "fst (validation_rules ! 7) ?fd"
    by (simp add: validation_rules_def parse_defs roundToDouble_def)
  have r0: "\<not> fst (validation_rules ! 0) ?fd"
    using sample_text by (simp add: validation_rules_def textRulesPass_def)
  have r1: "\<not> fst (validation_rules ! 1) ?fd"
    by (simp add: validation_rules_def trim_eq_Nil_iff isWhiteSpace_def)
  have lt: "\<forall>j<2. \<not> fst (validation_rules ! j) ?fd"
    using r0 r1 by (auto simp: less_2_cases_iff)
  have "(2::nat) < length validation_rules" by (simp add: length_validation_rules)
  with validateForm_first_violation [of ?st] r2 lt
  have "validateForm ?st = (False, ?st\<lparr>errorMessage := str (snd (validation_rules ! 2))\<rparr>)"
    unfolding fd by blast
  then show ?thesis using r2 r7 by (simp add: validation_rules_def)
qed

text \<open>
  C4. The catch block is not total on what it can catch. For a caught value with a string
  message, or with none, it stores the message of the specification's \<open>classify\<close>, which
  is never empty (\<open>catch_block_classifies\<close>). But when \<open>createPool\<close> rejects with null or
  undefined, reading \<open>message\<close> throws a TypeError after the state has been set to error and
  before any message is stored: the page is left in the error state with the message it
  had, which after a submit is the empty one.
\<close>

theorem catch_block_throws_on_null:
  "handleSubmit_rejected Nullish st = (st\<lparr>submissionState := Error\<rparr>, Some TypeError) \<and>
   submissionState (ui (run (sample_filling @ [Submit 1700000000, Rejected Nullish]) start)) =
     Error \<and>
   errorMessage (ui (run (sample_filling @ [Submit 1700000000, Rejected Nullish]) start)) = []"
proof -
  let ?w = "run (sample_filling @ [Submit 1700000000]) start"
  have "run (sample_filling @ [Submit 1700000000, Rejected Nullish]) start =
      step (Rejected Nullish) ?w"
    using run_append [of "sample_filling @ [Submit 1700000000]" "[Rejected Nullish]" start]
    by (simp add: run_single)
  then show ?thesis
    using sample_submitted by (simp add: rejected_throws sample_page_def)
qed

text \<open>
  C5. A submit without a wallet key, or with a key and a form that fails validation, makes
  no request to \<open>createPool\<close>, leaves the submission state as it was (idle stays idle) and
  stores a message: "Please connect your wallet first", or the message of the first
  violated rule. Sent through the form, such a submit adds nothing to the requests made.
\<close>

theorem rejected_attempt:
  "(noKey (publicKey st) \<longrightarrow>
      handleSubmit now st =
        (st\<lparr>errorMessage := str ''Please connect your wallet first''\<rparr>, None)) \<and>
   (\<not> noKey (publicKey st) \<and> validate_spec (formData st) = Some m \<longrightarrow>
      handleSubmit now st = (st\<lparr>errorMessage := str m\<rparr>, None)) \<and>
   (noKey (publicKey st) \<or> validate_spec (formData st) \<noteq> None \<longrightarrow>
      submissionState (fst (handleSubmit now st)) = submissionState st \<and>
      snd (handleSubmit now st) = None \<and>
      errorMessage (fst (handleSubmit now st)) \<noteq> []) \<and>
   (noKey (publicKey (ui w)) \<or> validate_spec (formData (ui w)) \<noteq> None \<longrightarrow>
      requests (step (Submit now) w) = requests w \<and>
      pending (step (Submit now) w) = pending w \<and>
      submissionState (ui (step (Submit now) w)) = submissionState (ui w))"
proof (intro conjI impI)
  show "noKey (publicKey st) \<Longrightarrow>
      handleSubmit now st =
        (st\<lparr>errorMessage := str ''Please connect your wallet first''\<rparr>, None)"
    by (rule handleSubmit_no_key)
  show "\<not> noKey (publicKey st) \<and> validate_spec (formData st) = Some m \<Longrightarrow>
      handleSubmit now st = (st\<lparr>errorMessage := str m\<rparr>, None)"
    by (simp add: handleSubmit_invalid)
  have nonempty: "validate_spec fd = Some x \<Longrightarrow> x \<noteq> []" for fd x
    by (auto simp: validate_spec_def validation_rules_def split: if_splits)
  have rej: "noKey (publicKey s) \<or> validate_spec (formData s) \<noteq> None \<Longrightarrow>
      \<exists>x. x \<noteq> [] \<and> handleSubmit now s = (s\<lparr>errorMessage := x\<rparr>, None)" for s
  proof (cases "noKey (publicKey s)")
    case True
    have "str ''Please connect your wallet first'' \<noteq> []" by simp
    then show ?thesis using True handleSubmit_no_key by blast
  next
    case False
    assume "noKey (publicKey s) \<or> validate_spec (formData s) \<noteq> None"
    then obtain x where x: "validate_spec (formData s) = Some x" using False by auto
    then have "str x \<noteq> []" using nonempty [OF x] by simp
    then show ?thesis using False x handleSubmit_invalid by blast
  qed
  {
    assume a: "noKey (publicKey st) \<or> validate_spec (formData st) \<noteq> None"
    from rej [OF a] obtain x where x: "x \<noteq> []" "handleSubmit now st = (st\<lparr>errorMessage := x\<rparr>, None)"
      by blast
    then show "submissionState (fst (handleSubmit now st)) = submissionState st" by simp
    from x show "snd (handleSubmit now st) = None" by simp
    from x show "errorMessage (fst (handleSubmit now st)) \<noteq> []" by simp
  }
  {
    assume a: "noKey (publicKey (ui w)) \<or> validate_spec (formData (ui w)) \<noteq> None"
    from rej [OF a] obtain x where
      x: "handleSubmit now (ui w) = ((ui w)\<lparr>errorMessage := x\<rparr>, None)"
      by blast
    then show "requests (step (Submit now) w) = requests w" by simp
    from x show "pending (step (Submit now) w) = pending w" by simp
    from x show "submissionState (ui (step (Submit now) w)) = submissionState (ui w)" by simp
  }
qed

text \<open>No wallet with a valid form; and a wallet with a target amount of "-5".\<close>

theorem rejected_attempt_witness:
  "handleSubmit 1700000000 (sample_page\<lparr>publicKey := None\<rparr>) =
     (sample_page\<lparr>publicKey := None,
        errorMessage := str ''Please connect your wallet first''\<rparr>, None) \<and>
   handleSubmit 1700000000 (sample_page\<lparr>formData := sample_form\<lparr>targetAmount := str ''-5''\<rparr>\<rparr>) =
     (sample_page\<lparr>formData := sample_form\<lparr>targetAmount := str ''-5''\<rparr>,
        errorMessage := str ''Target amount must be greater than 0''\<rparr>, None) \<and>
   submissionState (fst (handleSubmit 1700000000 (sample_page\<lparr>publicKey := None\<rparr>))) = Idle"
proof -
  let ?a = "sample_page\<lparr>publicKey := None\<rparr>"
  let ?b = "sample_page\<lparr>formData := sample_form\<lparr>targetAmount := str ''-5''\<rparr>\<rparr>"
  have a: "noKey (publicKey ?a)" by (simp add: noKey_def)
  have b: "\<not> noKey (publicKey ?b)" by (simp add: noKey_def sample_page_def)
  have v: "validate_spec (formData ?b) = Some ''Target amount must be greater than 0''"
    by (simp add: validate_spec_numeric sample_text minus_five)
  have i: "submissionState ?a = Idle" by (simp add: sample_page_def)
  from rejected_attempt [where st = ?a and now = 1700000000] a i
    rejected_attempt [where st = ?b and m = "''Target amount must be greater than 0''"
      and now = 1700000000] b v
  show ?thesis by simp
qed

text \<open>
  C6. With a wallet key and a form that passes validation, at time \<open>T \<ge> 0\<close> and with the
  duration parsing to the integer \<open>d\<close>, the deadline handed to \<open>createPool\<close> is
  \<open>T + d * 86400\<close>, provided this sum is at most \<open>2 ^ 53\<close>, the range in which the
  page's double arithmetic is exact.
\<close>

theorem deadline_exact:
  assumes key: "\<not> noKey (publicKey st)"
    and ok: "fst (validateForm st)"
    and d: "parseInt (durationDays (formData st)) = Fin (of_int d)"
    and T: "0 \<le> T" "T + d * 86400 \<le> 2 ^ 53"
  shows "map_option deadline (snd (handleSubmit T st)) = Some (Fin (of_int (T + d * 86400)))"
proof -
  have v: "validate_spec (formData st) = None"
    using ok by (simp add: validateForm_spec split: option.splits)
  have "\<not> le_zero (Fin (of_int d))" using validate_spec_None_duration [OF v] d by simp
  then have dpos: "0 < d" by simp
  have b1: "\<bar>d * 24\<bar> \<le> 2 ^ 53" using dpos T by simp
  have b2: "\<bar>d * 24 * 60\<bar> \<le> 2 ^ 53" using dpos T by simp
  have b3: "\<bar>d * 24 * 60 * 60\<bar> \<le> 2 ^ 53" using dpos T by simp
  have b4: "\<bar>T + d * 24 * 60 * 60\<bar> \<le> 2 ^ 53" using dpos T by simp
  have m1: "num_mult (Fin (of_int d)) (Fin 24) = Fin (of_int (d * 24))"
    using num_mult_int [OF b1] by simp
  have m2: "num_mult (Fin (of_int (d * 24))) (Fin 60) = Fin (of_int (d * 24 * 60))"
    using num_mult_int [OF b2] by simp
  have m3: "num_mult (Fin (of_int (d * 24 * 60))) (Fin 60) = Fin (of_int (d * 24 * 60 * 60))"
    using num_mult_int [OF b3] by simp
  have a: "num_add (Fin (of_int T)) (Fin (of_int (d * 24 * 60 * 60))) =
      Fin (of_int (T + d * 24 * 60 * 60))"
    using num_add_int [OF b4] by simp
  have "map_option deadline (snd (handleSubmit T st)) = Some (Fin (of_int (T + d * 24 * 60 * 60)))"
    by (simp only: handleSubmit_valid [OF key v] d m1 m2 m3 a snd_conv option.map
        CreatePoolParams.select_convs)
  moreover have "T + d * 24 * 60 * 60 = T + d * 86400" by simp
  ultimately show ?thesis by (simp only:)
qed

text \<open>A duration of "30" at time 1700000000.\<close>

theorem deadline_exact_witness:
  "parseInt (durationDays (formData sample_page)) = Fin 30 \<and>
   map_option deadline (snd (handleSubmit 1700000000 sample_page)) = Some (Fin (1700000000 + 2592000))"
proof -
  have key: "\<not> noKey (publicKey sample_page)" by (simp add: sample_page_def noKey_def)
  have ok: "fst (validateForm sample_page)"
    by (simp add: validateForm_spec sample_page_def sample_form_passes)
  have d: "parseInt (durationDays (formData sample_page)) = Fin (of_int 30)"
    by (simp add: sample_page_def sample_duration)
  from deadline_exact [OF key ok d, of 1700000000] d show ?thesis by simp
qed

text \<open>
  Without the bound the equation fails: a duration of "200000000000" at time 1700000001
  passes validation, and the sum 17280001700000001 is not a double; the deadline is the
  neighbouring 17280001700000000.
\<close>

theorem deadline_rounds_counterexample:
  "\<not> noKey (publicKey (sample_page\<lparr>formData := sample_form\<lparr>durationDays := str ''200000000000''\<rparr>\<rparr>)) \<and>
   fst (validateForm (sample_page\<lparr>formData := sample_form\<lparr>durationDays := str ''200000000000''\<rparr>\<rparr>)) \<and>
   parseInt (str ''200000000000'') = Fin 200000000000 \<and>
   map_option deadline
     (snd (handleSubmit 1700000001
        (sample_page\<lparr>formData := sample_form\<lparr>durationDays := str ''200000000000''\<rparr>\<rparr>))) =
     Some (Fin 17280001700000000) \<and>
   (17280001700000000 :: rat) \<noteq> 1700000001 + 200000000000 * 86400"
proof -
  let ?st = "sample_page\<lparr>formData := sample_form\<lparr>durationDays := str ''200000000000''\<rparr>\<rparr>"
  have key: "\<not> noKey (publicKey ?st)" by (simp add: sample_page_def noKey_def)
  have v: "validate_spec (formData ?st) = None"
    by (simp add: validate_spec_numeric sample_text sample_amount sample_numeric_present
        large_duration)
  have "map_option deadline (snd (handleSubmit 1700000001 ?st)) = Some (Fin 17280001700000000)"
    by (simp add: handleSubmit_valid [OF key v] large_duration roundToDouble_numeral
        odd_sum_rounds)
  then show ?thesis using key v by (simp add: validateForm_spec large_duration)
qed

text \<open>
  C7. When the text rules pass, a target amount of "0" fails validation with "Target
  amount must be greater than 0", and a target amount of "0.0000001" passes the target
  amount rule: the outcome is then the duration rule's alone.
\<close>

theorem zero_amount_rejected:
  assumes "textRulesPass fd"
  shows
    "validateForm (st\<lparr>formData := fd\<lparr>targetAmount := str ''0''\<rparr>\<rparr>) =
       (False, st\<lparr>formData := fd\<lparr>targetAmount := str ''0''\<rparr>,
                 errorMessage := str ''Target amount must be greater than 0''\<rparr>) \<and>
     validateForm (st\<lparr>formData := fd\<lparr>targetAmount := str ''0.0000001''\<rparr>\<rparr>) =
       (if durationDays fd = [] \<or> le_zero (parseInt (durationDays fd))
        then (False, st\<lparr>formData := fd\<lparr>targetAmount := str ''0.0000001''\<rparr>,
                       errorMessage := str ''Duration must be greater than 0 days''\<rparr>)
        else (True, st\<lparr>formData := fd\<lparr>targetAmount := str ''0.0000001''\<rparr>\<rparr>))"
  using assms
  by (simp add: validateForm_spec validate_spec_numeric zero_amount tiny_amount)

text \<open>The sample form, whose duration is "30".\<close>

theorem zero_amount_rejected_witness:
  "textRulesPass sample_form \<and>
   validateForm (sample_page\<lparr>formData := sample_form\<lparr>targetAmount := str ''0''\<rparr>\<rparr>) =
     (False, sample_page\<lparr>formData := sample_form\<lparr>targetAmount := str ''0''\<rparr>,
               errorMessage := str ''Target amount must be greater than 0''\<rparr>) \<and>
   validateForm (sample_page\<lparr>formData := sample_form\<lparr>targetAmount := str ''0.0000001''\<rparr>\<rparr>) =
     (True, sample_page\<lparr>formData := sample_form\<lparr>targetAmount := str ''0.0000001''\<rparr>\<rparr>)"
  using zero_amount_rejected [OF sample_text, of sample_page]
  by (simp add: sample_text sample_duration sample_numeric_present)

text \<open>
  C8. When the text rules pass and each of target amount and duration is either a
  non-empty string that parses to NaN or a string that passes its rule, \<open>validateForm\<close>
  returns true, and with a wallet key \<open>handleSubmit\<close> enters submitting and hands
  \<open>createPool\<close> the target amount string as it is; a NaN duration makes the deadline NaN.
\<close>

theorem nan_passes_validation:
  assumes "textRulesPass (formData st)"
    and "targetAmount (formData st) \<noteq> [] \<and> parseFloat (targetAmount (formData st)) = NaN \<or>
         \<not> (targetAmount (formData st) = [] \<or> le_zero (parseFloat (targetAmount (formData st))))"
    and "durationDays (formData st) \<noteq> [] \<and> parseInt (durationDays (formData st)) = NaN \<or>
         \<not> (durationDays (formData st) = [] \<or> le_zero (parseInt (durationDays (formData st))))"
  shows
    "validateForm st = (True, st) \<and>
     (\<not> noKey (publicKey st) \<longrightarrow>
        fst (handleSubmit now st) = st\<lparr>submissionState := Submitting, errorMessage := []\<rparr> \<and>
        map_option targetAmount_arg (snd (handleSubmit now st)) = Some (targetAmount (formData st)) \<and>
        (parseInt (durationDays (formData st)) = NaN \<longrightarrow>
           map_option deadline (snd (handleSubmit now st)) = Some NaN))"
proof -
  have t: "\<not> (targetAmount (formData st) = [] \<or> le_zero (parseFloat (targetAmount (formData st))))"
    using assms(2) by auto
  have d: "\<not> (durationDays (formData st) = [] \<or> le_zero (parseInt (durationDays (formData st))))"
    using assms(3) by auto
  have v: "validate_spec (formData st) = None"
    using t d by (simp add: validate_spec_numeric [OF assms(1)])
  then have "validateForm st = (True, st)" by (simp add: validateForm_spec)
  moreover have "\<not> noKey (publicKey st) \<Longrightarrow>
        fst (handleSubmit now st) = st\<lparr>submissionState := Submitting, errorMessage := []\<rparr> \<and>
        map_option targetAmount_arg (snd (handleSubmit now st)) = Some (targetAmount (formData st)) \<and>
        (parseInt (durationDays (formData st)) = NaN \<longrightarrow>
           map_option deadline (snd (handleSubmit now st)) = Some NaN)"
    by (simp add: handleSubmit_valid [OF _ v])
  ultimately show ?thesis by blast
qed

text \<open>Target amount and duration both "abc".\<close>

theorem nan_passes_validation_witness:
  "validateForm (sample_page\<lparr>formData := sample_form\<lparr>targetAmount := str ''abc'', durationDays := str ''abc''\<rparr>\<rparr>) =
     (True, sample_page\<lparr>formData := sample_form\<lparr>targetAmount := str ''abc'', durationDays := str ''abc''\<rparr>\<rparr>) \<and>
   map_option targetAmount_arg
     (snd (handleSubmit 1700000000
        (sample_page\<lparr>formData := sample_form\<lparr>targetAmount := str ''abc'', durationDays := str ''abc''\<rparr>\<rparr>))) =
     Some (str ''abc'') \<and>
   map_option deadline
     (snd (handleSubmit 1700000000
        (sample_page\<lparr>formData := sample_form\<lparr>targetAmount := str ''abc'', durationDays := str ''abc''\<rparr>\<rparr>))) =
     Some NaN"
proof -
  let ?st = "sample_page\<lparr>formData := sample_form\<lparr>targetAmount := str ''abc'', durationDays := str ''abc''\<rparr>\<rparr>"
  have 1: "textRulesPass (formData ?st)" by (simp add: sample_text)
  have 2: "targetAmount (formData ?st) \<noteq> [] \<and> parseFloat (targetAmount (formData ?st)) = NaN"
    by (simp add: not_a_number)
  have 3: "durationDays (formData ?st) \<noteq> [] \<and> parseInt (durationDays (formData ?st)) = NaN"
    by (simp add: not_a_number)
  have 4: "\<not> noKey (publicKey ?st)" by (simp add: noKey_def sample_page_def)
  from nan_passes_validation [OF 1 disjI1 [OF 2] disjI1 [OF 3], of 1700000000] 3 4
  show ?thesis by simp
qed

text \<open>
  C9. "Try Again" sets the state to idle and empties the error message; the form data and
  every other cell keep their values. Clicked in the error state, where its panel is
  rendered, that is what the page becomes.
\<close>

theorem tryAgain_frame:
  "submissionState (tryAgain st) = Idle \<and> errorMessage (tryAgain st) = [] \<and>
   formData (tryAgain st) = formData st \<and>
   tryAgain st = st\<lparr>submissionState := Idle, errorMessage := []\<rparr> \<and>
   ui (step TryAgain (w\<lparr>ui := st\<lparr>isCheckingWallet := False, submissionState := Error\<rparr>\<rparr>)) =
     st\<lparr>isCheckingWallet := False, submissionState := Idle, errorMessage := []\<rparr>"
  by (simp add: tryAgain_def tryAgainRendered_def)

text \<open>
  C10. A name, description, external URL or image hash made only of white space fails
  with that field's "required" message, as the empty string does, when every rule before
  that field's passes. The limits 500, 200 and 100 are compared (again once the rules
  before them pass) with the length of the string as typed, not of its trimmed form.
\<close>

theorem blank_counts_as_empty:
  assumes "formData st = fd"
  shows
  "((\<forall>c\<in>set (name fd). isWhiteSpace c) \<longrightarrow>
      validateForm st = (False, st\<lparr>errorMessage := str ''Pool name is required''\<rparr>)) \<and>
   (trim (name fd) \<noteq> [] \<and> (\<forall>c\<in>set (description fd). isWhiteSpace c) \<longrightarrow>
      validateForm st = (False, st\<lparr>errorMessage := str ''Description is required''\<rparr>)) \<and>
   (trim (name fd) \<noteq> [] \<and> trim (description fd) \<noteq> [] \<and> length (description fd) \<le> 500 \<and>
    (\<forall>c\<in>set (externalUrl fd). isWhiteSpace c) \<longrightarrow>
      validateForm st = (False, st\<lparr>errorMessage := str ''External URL is required''\<rparr>)) \<and>
   (trim (name fd) \<noteq> [] \<and> trim (description fd) \<noteq> [] \<and> length (description fd) \<le> 500 \<and>
    trim (externalUrl fd) \<noteq> [] \<and> length (externalUrl fd) \<le> 200 \<and>
    (\<forall>c\<in>set (imageHash fd). isWhiteSpace c) \<longrightarrow>
      validateForm st = (False, st\<lparr>errorMessage := str ''Image hash is required''\<rparr>)) \<and>
   (trim (name fd) \<noteq> [] \<and> trim (description fd) \<noteq> [] \<and> 500 < length (description fd) \<longrightarrow>
      validateForm st =
        (False, st\<lparr>errorMessage := str ''Description must be 500 characters or less''\<rparr>)) \<and>
   (trim (name fd) \<noteq> [] \<and> trim (description fd) \<noteq> [] \<and> length (description fd) \<le> 500 \<and>
    trim (externalUrl fd) \<noteq> [] \<and> 200 < length (externalUrl fd) \<longrightarrow>
      validateForm st =
        (False, st\<lparr>errorMessage := str ''External URL must be 200 characters or less''\<rparr>)) \<and>
   (trim (name fd) \<noteq> [] \<and> trim (description fd) \<noteq> [] \<and> length (description fd) \<le> 500 \<and>
    trim (externalUrl fd) \<noteq> [] \<and> length (externalUrl fd) \<le> 200 \<and>
    trim (imageHash fd) \<noteq> [] \<and> 100 < length (imageHash fd) \<longrightarrow>
      validateForm st =
        (False, st\<lparr>errorMessage := str ''Image hash must be 100 characters or less''\<rparr>))"
  using assms by (simp add: validateForm_def Let_def trim_eq_Nil_iff [symmetric])

text \<open>
  A name of three spaces; and a description of one letter followed by 500 spaces, whose
  trimmed form has length 1.
\<close>

theorem blank_counts_as_empty_witness:
  "list_all isWhiteSpace (str ''   '') \<and>
   validateForm (sample_page\<lparr>formData := sample_form\<lparr>name := str ''   ''\<rparr>\<rparr>) =
     (False, sample_page\<lparr>formData := sample_form\<lparr>name := str ''   ''\<rparr>,
               errorMessage := str ''Pool name is required''\<rparr>) \<and>
   length (trim (97 # replicate 500 32)) = 1 \<and>
   validateForm (sample_page\<lparr>formData := sample_form\<lparr>description := 97 # replicate 500 32\<rparr>\<rparr>) =
     (False, sample_page\<lparr>formData := sample_form\<lparr>description := 97 # replicate 500 32\<rparr>,
               errorMessage := str ''Description must be 500 characters or less''\<rparr>)"
proof -
  let ?a = "sample_page\<lparr>formData := sample_form\<lparr>name := str ''   ''\<rparr>\<rparr>"
  let ?b = "sample_page\<lparr>formData := sample_form\<lparr>description := 97 # replicate 500 32\<rparr>\<rparr>"
  have ws: "\<forall>c\<in>set (str ''   ''). isWhiteSpace c" by (simp add: str_Cons isWhiteSpace_def)
  have n: "trim (name sample_form) \<noteq> []"
    using sample_text by (simp add: textRulesPass_def validation_rules_def)
  from blank_counts_as_empty [of ?a "formData ?a"] ws
  have 1: "validateForm ?a = (False, ?a\<lparr>errorMessage := str ''Pool name is required''\<rparr>)"
    by simp
  from blank_counts_as_empty [of ?b "formData ?b"] n
  have 2: "validateForm ?b =
      (False, ?b\<lparr>errorMessage := str ''Description must be 500 characters or less''\<rparr>)"
    by (simp add: padded_description)
  from ws 1 2 show ?thesis by (simp add: padded_description list_all_iff)
qed

text \<open>
  Without the proviso the message is another field's: an external URL of three spaces
  together with a description of 501 characters fails with the description's limit.
\<close>

theorem blank_url_counterexample:
  "list_all isWhiteSpace (str ''   '') \<and>
   validateForm
     (sample_page\<lparr>formData :=
        sample_form\<lparr>description := replicate 501 120, externalUrl := str ''   ''\<rparr>\<rparr>) =
     (False,
      sample_page\<lparr>formData :=
          sample_form\<lparr>description := replicate 501 120, externalUrl := str ''   ''\<rparr>,
        errorMessage := str ''Description must be 500 characters or less''\<rparr>) \<and>
   str ''Description must be 500 characters or less'' \<noteq> str ''External URL is required''"
proof -
  have n: "trim (name sample_form) \<noteq> []"
    using sample_text by (simp add: textRulesPass_def validation_rules_def)
  have w: "list_all isWhiteSpace (str ''   '')"
    by (simp add: str_Cons isWhiteSpace_def)
  have d: "trim (replicate 501 120) \<noteq> []"
    by (simp add: trim_eq_Nil_iff isWhiteSpace_def)
  show ?thesis using n w d by (simp add: validateForm_def Let_def)
qed

end
